theory Spec2Isabelle
  imports Main
begin

section \<open>Key rotation of a controller identifier: \<open>src/endpoints/identifier/keys/roll.ts\<close>\<close>

text \<open>
  The endpoint \<open>roll\<close> is the only function of the repository under \<open>src/\<close>. The
  classes it imports from \<open>models\<close> and \<open>errors\<close> (\<open>Identifier\<close>, \<open>KeyPair\<close>,
  \<open>ControllerDocument\<close>, \<open>KeyPairCreator\<close>, \<open>IdentifierStore\<close>, \<open>RequestParser\<close>, the error
  classes) are not: their data is modelled from the fields \<open>roll\<close> touches and from the
  specification's data model, and their methods either from the specification (each such
  definition says so) or as parameters collected in the record \<open>Collaborators\<close>.
\<close>

subsection \<open>Data model\<close>

text \<open>
  \<open>KeyUse\<close> is a TypeScript enum whose value \<open>roll\<close> obtains through the unchecked cast
  \<open>getQueryParameter<KeyUse>('use', KeyUse.Signing)\<close>: the type is erased at run time, so a
  value that is neither member can reach the comparison \<open>keyUse === KeyUse.Signing\<close>.
  \<open>OtherUse\<close> stands for such a value.
\<close>

datatype KeyUse = Signing | KeyAgreement | OtherUse string

datatype KeyAlgorithm = Rsa | Ecdsa | Eddsa

datatype Curve = EcdsaCurve string | EddsaCurve string

datatype KeyState = Current | Historical

datatype VerificationMethodRelationship = Authentication | KeyAgreementRelationship

datatype VerificationMethodType = JsonWebKey2020

record KeyPair =
  id_keyPair :: string
  algorithm :: KeyAlgorithm
  size_keyPair :: "nat option"
  curve :: "Curve option"
  use :: KeyUse
  state :: KeyState
  publicKey :: string
  privateKey :: "string option"

text \<open>
  A JSON Web Key as \<open>asJwk\<close> returns it: the member \<open>jwk_private\<close> is the private part of
  the key (the parameter \<open>d\<close> of a JWK), absent from a public JWK.
\<close>

record JsonWebKey =
  jwk_kid :: string
  jwk_alg :: KeyAlgorithm
  jwk_crv :: "Curve option"
  jwk_public :: string
  jwk_private :: "string option"

record VerificationMethod =
  id_method :: string
  controller :: string
  type_method :: VerificationMethodType
  publicKeyJwk :: JsonWebKey

record ControllerDocument =
  id_document :: string
  verificationMethod :: "VerificationMethod list"
  authentication :: "string list"
  keyAgreement :: "string list"

record Identifier =
  id_identifier :: string
  owner :: string
  keyPairs :: "KeyPair list"
  controllerDocument :: ControllerDocument

datatype AuthenticatedIdentity = AuthenticatedIdentity string

text \<open>
  The request after \<open>RequestParser\<close>: the caller, the identifier of the path (absent when
  the path has none) and the four optional query parameters, typed as the specification's
  request parsing delivers them. A parameter that is missing or empty is \<open>None\<close>.
\<close>

record Request =
  caller :: string
  identifier_request :: "string option"
  query_use :: "KeyUse option"
  query_alg :: "KeyAlgorithm option"
  query_size :: "nat option"
  query_curve :: "Curve option"

subsection \<open>Errors, responses and effects\<close>

text \<open>
  The error kinds are the specification's taxonomy; \<open>roll\<close> itself constructs
  \<open>IdentifierNotProvided\<close> and \<open>KeyNotConfigured\<close> only. An error is either derived from
  \<open>AuthenticatedRequestError\<close> (the \<open>catch\<close> of \<open>roll\<close> turns it into a response) or
  not (\<open>OtherError\<close>: the \<open>catch\<close> throws it again).
\<close>

datatype error_kind =
    IdentifierNotProvided
  | KeyNotConfigured string KeyUse
  | InvalidKeyParameters
  | UnsupportedKeyUse
  | NoCurrentKey
  | DuplicateCurrentKey
  | IdentifierNotFound
  | Forbidden
  | ConcurrentModification
  | Unclassified string

datatype error =
    AuthenticatedRequestError error_kind AuthenticatedIdentity
  | OtherError error_kind

datatype body = ErrorBody error_kind | DocumentBody ControllerDocument

record Response =
  statusCode :: nat
  body :: body

datatype outcome = Returned Response | Thrown error

text \<open>What \<open>roll\<close> does besides returning: its console output and its calls of the store.\<close>

datatype effect =
    ConsoleLog error
  | ConsoleError error
  | StoreRead string AuthenticatedIdentity
  | StoreAddOrUpdate Identifier

subsection \<open>Collaborators\<close>

text \<open>
  The parts of the absent classes that neither \<open>roll\<close> nor the specification fixes, for a
  store of any type \<open>'st\<close>:
  \<^item> \<open>store_read\<close> and \<open>store_addOrUpdate\<close> are \<open>IdentifierStore.read\<close> and
    \<open>IdentifierStore.addOrUpdate\<close>. Either may throw. \<open>read\<close> returns a copy of the stored
    aggregate (the store keeps serialised values, which is why \<open>roll\<close> has to restore the
    prototype of the controller document), and an \<open>addOrUpdate\<close> that throws leaves the
    store as it was: it replaces one whole aggregate or nothing.
  \<^item> \<open>generateKeyMaterial\<close> is the key generation inside \<open>KeyPairCreator.createKey\<close>:
    it rejects parameters or yields the id, the public and the private material of a new
    key.
  \<^item> \<open>otherStatus\<close> is the status code of the error response of every kind but
    \<open>IdentifierNotProvided\<close>.
\<close>

record 'st Collaborators =
  store_read :: "string \<Rightarrow> AuthenticatedIdentity \<Rightarrow> 'st \<Rightarrow> error + Identifier"
  store_addOrUpdate :: "Identifier \<Rightarrow> 'st \<Rightarrow> error + 'st"
  generateKeyMaterial ::
    "KeyAlgorithm \<Rightarrow> KeyUse \<Rightarrow> nat option \<Rightarrow> Curve option \<Rightarrow> error + (string \<times> string \<times> string)"
  otherStatus :: "error_kind \<Rightarrow> nat"

subsection \<open>Methods of the absent classes\<close>

text \<open>
  Modelled from the spec: \<open>RequestParser.getQueryParameter\<close> is not under \<open>src/\<close>. "Each
  overridden parameter, if supplied and non-empty, wins; otherwise" the default is taken.
\<close>

definition getQueryParameter :: "'a option \<Rightarrow> 'a \<Rightarrow> 'a" where
  "getQueryParameter supplied defaultValue =
     (case supplied of Some v \<Rightarrow> v | None \<Rightarrow> defaultValue)"

text \<open>
  Modelled from the spec: \<open>toErrorResponse\<close> of the error classes is not under \<open>src/\<close>.
  The response describes the error in its body; for \<open>IdentifierNotProvided\<close> the status
  is 400 (the comment of \<open>roll\<close>: "if not return 400 Bad Request"), for the other kinds it
  is left to \<open>otherStatus\<close>.
\<close>

definition toErrorResponse :: "'st Collaborators \<Rightarrow> error_kind \<Rightarrow> Response" where
  "toErrorResponse env k =
     \<lparr>statusCode = (case k of IdentifierNotProvided \<Rightarrow> 400 | _ \<Rightarrow> otherStatus env k),
      body = ErrorBody k\<rparr>"

fun findIndex :: "('a \<Rightarrow> bool) \<Rightarrow> 'a list \<Rightarrow> nat option" where
  "findIndex P [] = None"
| "findIndex P (x # xs) = (if P x then Some 0 else map_option Suc (findIndex P xs))"

definition isCurrentKey :: "KeyUse \<Rightarrow> KeyPair \<Rightarrow> bool" where
  "isCurrentKey u k \<longleftrightarrow> use k = u \<and> state k = Current"

text \<open>
  Modelled from the spec: \<open>Identifier.getCurrentKey\<close> is not under \<open>src/\<close>. It "returns
  the unique KeyPair with state Current and matching use, or an explicit absent result".
  \<open>roll\<close> assigns to the fields of the key it gets and then stores the identifier, so
  the result is a reference into \<open>keyPairs\<close>: here the position of the key, the first one
  should several match.
\<close>

definition getCurrentKey :: "Identifier \<Rightarrow> KeyUse \<Rightarrow> nat option" where
  "getCurrentKey ident u = findIndex (isCurrentKey u) (keyPairs ident)"

text \<open>
  Modelled from the spec: \<open>KeyPairCreator.createKey\<close> is not under \<open>src/\<close>. Its result is
  "a new KeyPair with state Current, a freshly generated unique id, and both public and
  private material populated", for the algorithm, use, size and curve it is given; it
  fails when the parameters are rejected.
\<close>

definition createKey ::
  "'st Collaborators \<Rightarrow> KeyAlgorithm \<Rightarrow> KeyUse \<Rightarrow> nat option \<Rightarrow> Curve option \<Rightarrow> error + KeyPair"
where
  "createKey env alg u sz crv =
     (case generateKeyMaterial env alg u sz crv of
        Inl e \<Rightarrow> Inl e
      | Inr (kid, pub, priv) \<Rightarrow>
          Inr \<lparr>id_keyPair = kid, algorithm = alg, size_keyPair = sz, curve = crv, use = u,
               state = Current, publicKey = pub, privateKey = Some priv\<rparr>)"

text \<open>
  Modelled from the spec: \<open>KeyPair.asJwk\<close> is not under \<open>src/\<close>. Its argument says whether
  the private part of the key goes into the JWK; the verification method holds "public key
  material in that encoding".
\<close>

definition asJwk :: "KeyPair \<Rightarrow> bool \<Rightarrow> JsonWebKey" where
  "asJwk k includePrivate =
     \<lparr>jwk_kid = id_keyPair k, jwk_alg = algorithm k, jwk_crv = curve k,
      jwk_public = publicKey k,
      jwk_private = (if includePrivate then privateKey k else None)\<rparr>"

definition relationshipList :: "VerificationMethodRelationship \<Rightarrow> ControllerDocument \<Rightarrow> string list" where
  "relationshipList r doc =
     (case r of Authentication \<Rightarrow> authentication doc | KeyAgreementRelationship \<Rightarrow> keyAgreement doc)"

definition addReference ::
  "string \<Rightarrow> VerificationMethodRelationship \<Rightarrow> ControllerDocument \<Rightarrow> ControllerDocument"
where
  "addReference ref r doc =
     (if ref \<in> set (relationshipList r doc) then doc
      else (case r of
              Authentication \<Rightarrow> doc\<lparr>authentication := authentication doc @ [ref]\<rparr>
            | KeyAgreementRelationship \<Rightarrow> doc\<lparr>keyAgreement := keyAgreement doc @ [ref]\<rparr>))"

text \<open>
  Modelled from the spec: \<open>ControllerDocument.addVerificationMethod\<close> is not under
  \<open>src/\<close>. It "appends method to the document's method sequence if not already present (by
  id), then appends a reference to method to each named relationship list if not already
  present there".
\<close>

definition addVerificationMethod ::
  "VerificationMethod \<Rightarrow> VerificationMethodRelationship list \<Rightarrow> ControllerDocument \<Rightarrow> ControllerDocument"
where
  "addVerificationMethod method relationships doc =
     fold (addReference (id_method method)) relationships
       (if id_method method \<in> set (map id_method (verificationMethod doc)) then doc
        else doc\<lparr>verificationMethod := verificationMethod doc @ [method]\<rparr>)"

subsection \<open>The endpoint\<close>

text \<open>
  Lines 102 to 105: the relationship is \<open>Authentication\<close> when the use is \<open>Signing\<close> and
  \<open>KeyAgreement\<close> in every other case.
\<close>

definition verificationMethodRelationship :: "KeyUse \<Rightarrow> VerificationMethodRelationship" where
  "verificationMethodRelationship keyUse =
     (if keyUse = Signing then Authentication else KeyAgreementRelationship)"

text \<open>
  Lines 93 to 112, the changes \<open>roll\<close> makes to the identifier it has read, given the
  position \<open>i\<close> of the current key and the new key: the current key becomes historical
  and loses its private key (the assignments go through the reference, so they change the
  element of \<open>keyPairs\<close>), the new key is pushed, and the verification method of the new
  key is added to the controller document under the relationship of the use.
\<close>

definition retire :: "KeyPair \<Rightarrow> KeyPair" where
  "retire currentKey = currentKey\<lparr>state := Historical, privateKey := None\<rparr>"

definition newVerificationMethod :: "KeyPair \<Rightarrow> Identifier \<Rightarrow> VerificationMethod" where
  "newVerificationMethod newKey ident =
     \<lparr>id_method = id_keyPair newKey,
      controller = id_document (controllerDocument ident),
      type_method = JsonWebKey2020,
      publicKeyJwk = asJwk newKey False\<rparr>"

definition rolled :: "Identifier \<Rightarrow> nat \<Rightarrow> KeyPair \<Rightarrow> KeyUse \<Rightarrow> Identifier" where
  "rolled ident i newKey keyUse =
     (let ident1 = ident\<lparr>keyPairs := (keyPairs ident)[i := retire (keyPairs ident ! i)]\<rparr>;
          ident2 = ident1\<lparr>keyPairs := keyPairs ident1 @ [newKey]\<rparr>
      in ident2\<lparr>controllerDocument :=
           addVerificationMethod (newVerificationMethod newKey ident2)
             [verificationMethodRelationship keyUse] (controllerDocument ident2)\<rparr>)"

text \<open>
  The body of the \<open>try\<close> block, lines 59 to 121. It yields what the block returns or
  throws, the store and the effects so far.
\<close>

definition tryRoll ::
  "'st Collaborators \<Rightarrow> Request \<Rightarrow> AuthenticatedIdentity \<Rightarrow> string \<Rightarrow> KeyUse \<Rightarrow> 'st
     \<Rightarrow> (error + Response) \<times> 'st \<times> effect list"
where
  "tryRoll env request authenticatedIdentity identifierId keyUse st =
     (case store_read env identifierId authenticatedIdentity st of
        Inl e \<Rightarrow> (Inl e, st, [StoreRead identifierId authenticatedIdentity])
      | Inr ident \<Rightarrow>
          (case getCurrentKey ident keyUse of
             None \<Rightarrow>
               (Inr (toErrorResponse env (KeyNotConfigured identifierId keyUse)), st,
                [StoreRead identifierId authenticatedIdentity,
                 ConsoleError
                   (AuthenticatedRequestError (KeyNotConfigured identifierId keyUse)
                      authenticatedIdentity)])
           | Some i \<Rightarrow>
               (let currentKey = keyPairs ident ! i;
                    alg = getQueryParameter (query_alg request) (algorithm currentKey);
                    sz = getQueryParameter (map_option Some (query_size request))
                           (size_keyPair currentKey);
                    crv = getQueryParameter (map_option Some (query_curve request))
                            (curve currentKey)
                in case createKey env alg keyUse sz crv of
                     Inl e \<Rightarrow> (Inl e, st, [StoreRead identifierId authenticatedIdentity])
                   | Inr newKey \<Rightarrow>
                       (let ident' = rolled ident i newKey keyUse
                        in case store_addOrUpdate env ident' st of
                             Inl e \<Rightarrow>
                               (Inl e, st,
                                [StoreRead identifierId authenticatedIdentity,
                                 StoreAddOrUpdate ident'])
                           | Inr st' \<Rightarrow>
                               (Inr \<lparr>statusCode = 201,
                                     body = DocumentBody (controllerDocument ident')\<rparr>,
                                st',
                                [StoreRead identifierId authenticatedIdentity,
                                 StoreAddOrUpdate ident'])))))"

text \<open>
  The \<open>catch\<close> block, lines 122 to 130: an \<open>AuthenticatedRequestError\<close> becomes its error
  response, any other error is thrown again.
\<close>

definition catchError :: "'st Collaborators \<Rightarrow> error \<Rightarrow> outcome" where
  "catchError env e =
     (case e of
        AuthenticatedRequestError k a \<Rightarrow> Returned (toErrorResponse env k)
      | OtherError k \<Rightarrow> Thrown e)"

definition roll :: "'st Collaborators \<Rightarrow> Request \<Rightarrow> 'st \<Rightarrow> outcome \<times> 'st \<times> effect list" where
  "roll env request st =
     (let authenticatedIdentity = AuthenticatedIdentity (caller request);
          keyUse = getQueryParameter (query_use request) Signing
      in case identifier_request request of
           None \<Rightarrow>
             (Returned (toErrorResponse env IdentifierNotProvided), st,
              [ConsoleLog (AuthenticatedRequestError IdentifierNotProvided authenticatedIdentity)])
         | Some identifierId \<Rightarrow>
             if identifierId = [] then
               (Returned (toErrorResponse env IdentifierNotProvided), st,
                [ConsoleLog (AuthenticatedRequestError IdentifierNotProvided authenticatedIdentity)])
             else
               (case tryRoll env request authenticatedIdentity identifierId keyUse st of
                  (Inl e, st', effects) \<Rightarrow> (catchError env e, st', effects)
                | (Inr response, st', effects) \<Rightarrow> (Returned response, st', effects)))"

subsection \<open>A scenario\<close>

text \<open>
  The identifier \<open>did:example:123\<close> of the specification's scenarios: it has the current
  ECDSA P-256 signing key \<open>k1\<close> and no key-agreement key. A second identifier has a
  current key whose use is neither member of \<open>KeyUse\<close>. The store is an association list
  whose first entry for an id is the stored aggregate; key generation rejects an RSA key
  without a size and yields the key \<open>k2\<close> otherwise.
\<close>

definition k1 :: KeyPair where
  "k1 = \<lparr>id_keyPair = ''k1'', algorithm = Ecdsa, size_keyPair = None,
          curve = Some (EcdsaCurve ''P-256''), use = Signing, state = Current,
          publicKey = ''x1'', privateKey = Some ''d1''\<rparr>"

definition k2 :: "KeyAlgorithm \<Rightarrow> KeyUse \<Rightarrow> nat option \<Rightarrow> Curve option \<Rightarrow> KeyPair" where
  "k2 alg u sz crv =
     \<lparr>id_keyPair = ''k2'', algorithm = alg, size_keyPair = sz, curve = crv, use = u,
      state = Current, publicKey = ''x2'', privateKey = Some ''d2''\<rparr>"

definition identifier123 :: Identifier where
  "identifier123 =
     \<lparr>id_identifier = ''123'', owner = ''owner'', keyPairs = [k1],
      controllerDocument =
        \<lparr>id_document = ''did:example:123'',
         verificationMethod =
           [\<lparr>id_method = ''k1'', controller = ''did:example:123'',
             type_method = JsonWebKey2020, publicKeyJwk = asJwk k1 False\<rparr>],
         authentication = [''k1''], keyAgreement = []\<rparr>\<rparr>"

definition identifier456 :: Identifier where
  "identifier456 =
     \<lparr>id_identifier = ''456'', owner = ''owner'',
      keyPairs = [k1\<lparr>id_keyPair := ''k9'', use := OtherUse ''enc''\<rparr>],
      controllerDocument =
        \<lparr>id_document = ''did:example:456'', verificationMethod = [],
         authentication = [], keyAgreement = []\<rparr>\<rparr>"

definition exampleStore :: "(string \<times> Identifier) list" where
  "exampleStore = [(''123'', identifier123), (''456'', identifier456)]"

definition exampleCollaborators :: "(string \<times> Identifier) list Collaborators" where
  "exampleCollaborators =
     \<lparr>store_read = (\<lambda>identifierId a st.
        case map_of st identifierId of
          None \<Rightarrow> Inl (AuthenticatedRequestError IdentifierNotFound a)
        | Some ident \<Rightarrow> Inr ident),
      store_addOrUpdate = (\<lambda>ident st. Inr ((id_identifier ident, ident) # st)),
      generateKeyMaterial = (\<lambda>alg u sz crv.
        if alg = Rsa \<and> sz = None then Inl (OtherError InvalidKeyParameters)
        else Inr (''k2'', ''x2'', ''d2'')),
      otherStatus = (\<lambda>k. 400)\<rparr>"

definition conflictingCollaborators :: "(string \<times> Identifier) list Collaborators" where
  "conflictingCollaborators =
     exampleCollaborators\<lparr>store_addOrUpdate :=
       (\<lambda>ident st. Inl (OtherError ConcurrentModification))\<rparr>"

definition rollRequest :: Request where
  "rollRequest =
     \<lparr>caller = ''owner'', identifier_request = Some ''123'', query_use = None,
      query_alg = None, query_size = None, query_curve = None\<rparr>"

text \<open>
  Further identifiers, kept in a second store: \<open>321\<close> has a historical signing key, a
  current signing key and a current key-agreement key; \<open>789\<close> has two current signing
  keys, which the data model forbids and the type of the aggregate does not.
\<close>

definition k0 :: KeyPair where
  "k0 = \<lparr>id_keyPair = ''k0'', algorithm = Ecdsa, size_keyPair = None,
          curve = Some (EcdsaCurve ''P-256''), use = Signing, state = Historical,
          publicKey = ''x0'', privateKey = None\<rparr>"

definition k3 :: KeyPair where
  "k3 = \<lparr>id_keyPair = ''k3'', algorithm = Ecdsa, size_keyPair = None,
          curve = Some (EcdsaCurve ''P-256''), use = KeyAgreement, state = Current,
          publicKey = ''x3'', privateKey = Some ''d3''\<rparr>"

definition k4 :: KeyPair where
  "k4 = \<lparr>id_keyPair = ''k4'', algorithm = Ecdsa, size_keyPair = None,
          curve = Some (EcdsaCurve ''P-256''), use = Signing, state = Current,
          publicKey = ''x4'', privateKey = Some ''d4''\<rparr>"

definition identifier321 :: Identifier where
  "identifier321 =
     \<lparr>id_identifier = ''321'', owner = ''owner'', keyPairs = [k0, k1, k3],
      controllerDocument =
        \<lparr>id_document = ''did:example:321'',
         verificationMethod =
           [\<lparr>id_method = ''k0'', controller = ''did:example:321'',
             type_method = JsonWebKey2020, publicKeyJwk = asJwk k0 False\<rparr>,
            \<lparr>id_method = ''k1'', controller = ''did:example:321'',
             type_method = JsonWebKey2020, publicKeyJwk = asJwk k1 False\<rparr>,
            \<lparr>id_method = ''k3'', controller = ''did:example:321'',
             type_method = JsonWebKey2020, publicKeyJwk = asJwk k3 False\<rparr>],
         authentication = [''k0'', ''k1''], keyAgreement = [''k3'']\<rparr>\<rparr>"

definition identifier789 :: Identifier where
  "identifier789 =
     \<lparr>id_identifier = ''789'', owner = ''owner'', keyPairs = [k1, k4],
      controllerDocument =
        \<lparr>id_document = ''did:example:789'',
         verificationMethod =
           [\<lparr>id_method = ''k1'', controller = ''did:example:789'',
             type_method = JsonWebKey2020, publicKeyJwk = asJwk k1 False\<rparr>,
            \<lparr>id_method = ''k4'', controller = ''did:example:789'',
             type_method = JsonWebKey2020, publicKeyJwk = asJwk k4 False\<rparr>],
         authentication = [''k1'', ''k4''], keyAgreement = []\<rparr>\<rparr>"

definition secondStore :: "(string \<times> Identifier) list" where
  "secondStore = [(''321'', identifier321), (''789'', identifier789)]"

subsection \<open>The objects of the endpoint\<close>

text \<open>
  \<open>roll\<close> does not build a new identifier: lines 93 to 112 assign to the object that
  \<open>read\<close> returned, and line 115 hands that same object to \<open>addOrUpdate\<close>. What a
  failing \<open>addOrUpdate\<close> leaves behind therefore depends on who else holds the object,
  which \<open>roll\<close> above, passing values, cannot say. Here the objects are explicit: a heap
  maps references to aggregates, \<open>object_read\<close> yields a reference (to the very object the
  store holds, or to a copy it has put into the heap) and \<open>object_addOrUpdate\<close> takes the
  reference. A failing \<open>object_addOrUpdate\<close> may leave the store in any state; the heap it
  cannot change. Key creation and the error responses are those of \<open>roll\<close>.
\<close>

type_synonym ref = nat

type_synonym heap = "ref \<Rightarrow> Identifier"

record 'st ObjectStore =
  object_read :: "string \<Rightarrow> AuthenticatedIdentity \<Rightarrow> heap \<Rightarrow> 'st \<Rightarrow> error + (ref \<times> heap)"
  object_addOrUpdate :: "ref \<Rightarrow> heap \<Rightarrow> 'st \<Rightarrow> error option \<times> 'st"

text \<open>
  The \<open>try\<close> block, lines 59 to 121, on the heap. The three changes of lines 93 to 112
  are those of \<open>rolled\<close>, written to the reference that was read.
\<close>

definition tryRollInPlace ::
  "'a Collaborators \<Rightarrow> 'st ObjectStore \<Rightarrow> Request \<Rightarrow> AuthenticatedIdentity \<Rightarrow> string \<Rightarrow> KeyUse
     \<Rightarrow> heap \<Rightarrow> 'st \<Rightarrow> (error + Response) \<times> heap \<times> 'st \<times> effect list"
where
  "tryRollInPlace env objs request authenticatedIdentity identifierId keyUse h st =
     (case object_read objs identifierId authenticatedIdentity h st of
        Inl e \<Rightarrow> (Inl e, h, st, [StoreRead identifierId authenticatedIdentity])
      | Inr (r, h0) \<Rightarrow>
          (case getCurrentKey (h0 r) keyUse of
             None \<Rightarrow>
               (Inr (toErrorResponse env (KeyNotConfigured identifierId keyUse)), h0, st,
                [StoreRead identifierId authenticatedIdentity,
                 ConsoleError
                   (AuthenticatedRequestError (KeyNotConfigured identifierId keyUse)
                      authenticatedIdentity)])
           | Some i \<Rightarrow>
               (let currentKey = keyPairs (h0 r) ! i;
                    alg = getQueryParameter (query_alg request) (algorithm currentKey);
                    sz = getQueryParameter (map_option Some (query_size request))
                           (size_keyPair currentKey);
                    crv = getQueryParameter (map_option Some (query_curve request))
                            (curve currentKey)
                in case createKey env alg keyUse sz crv of
                     Inl e \<Rightarrow> (Inl e, h0, st, [StoreRead identifierId authenticatedIdentity])
                   | Inr newKey \<Rightarrow>
                       (let h1 = h0(r := rolled (h0 r) i newKey keyUse)
                        in case object_addOrUpdate objs r h1 st of
                             (Some e, st1) \<Rightarrow>
                               (Inl e, h1, st1,
                                [StoreRead identifierId authenticatedIdentity,
                                 StoreAddOrUpdate (h1 r)])
                           | (None, st1) \<Rightarrow>
                               (Inr \<lparr>statusCode = 201,
                                     body = DocumentBody (controllerDocument (h1 r))\<rparr>,
                                h1, st1,
                                [StoreRead identifierId authenticatedIdentity,
                                 StoreAddOrUpdate (h1 r)])))))"

definition rollInPlace ::
  "'a Collaborators \<Rightarrow> 'st ObjectStore \<Rightarrow> Request \<Rightarrow> heap \<Rightarrow> 'st
     \<Rightarrow> outcome \<times> heap \<times> 'st \<times> effect list"
where
  "rollInPlace env objs request h st =
     (let authenticatedIdentity = AuthenticatedIdentity (caller request);
          keyUse = getQueryParameter (query_use request) Signing
      in case identifier_request request of
           None \<Rightarrow>
             (Returned (toErrorResponse env IdentifierNotProvided), h, st,
              [ConsoleLog (AuthenticatedRequestError IdentifierNotProvided authenticatedIdentity)])
         | Some identifierId \<Rightarrow>
             if identifierId = [] then
               (Returned (toErrorResponse env IdentifierNotProvided), h, st,
                [ConsoleLog (AuthenticatedRequestError IdentifierNotProvided authenticatedIdentity)])
             else
               (case tryRollInPlace env objs request authenticatedIdentity identifierId keyUse h st of
                  (Inl e, h', st', effects) \<Rightarrow> (catchError env e, h', st', effects)
                | (Inr response, h', st', effects) \<Rightarrow> (Returned response, h', st', effects)))"





section \<open>Auxiliary facts\<close>

subsection \<open>Searching the key list\<close>

lemma findIndex_Some:
  "findIndex P xs = Some i \<Longrightarrow> i < length xs \<and> P (xs ! i)"
  by (induction xs arbitrary: i) (auto split: if_splits)

lemma findIndex_None:
  "findIndex P xs = None \<longleftrightarrow> (\<forall>x \<in> set xs. \<not> P x)"
  by (induction xs) auto




subsection \<open>The changes to the identifier\<close>

lemma createKey_Inr:
  assumes "createKey env alg u sz crv = Inr k"
  shows "algorithm k = alg" "size_keyPair k = sz" "curve k = crv" "use k = u"
    "state k = Current" "privateKey k \<noteq> None"
  using assms by (auto simp: createKey_def split: sum.splits prod.splits)


lemma keyPairs_rolled:
  "keyPairs (rolled ident i newKey u) = (keyPairs ident)[i := retire (keyPairs ident ! i)] @ [newKey]"
  by (simp add: rolled_def Let_def)

lemma controllerDocument_rolled:
  "controllerDocument (rolled ident i newKey u) =
     addVerificationMethod (newVerificationMethod newKey ident)
       [verificationMethodRelationship u] (controllerDocument ident)"
  by (simp add: rolled_def Let_def newVerificationMethod_def)

lemma id_identifier_rolled: "id_identifier (rolled ident i newKey u) = id_identifier ident"
  by (simp add: rolled_def Let_def)


subsection \<open>Adding a verification method\<close>

lemma verificationMethod_addVerificationMethod:
  "verificationMethod (addVerificationMethod m [r] doc) =
     (if id_method m \<in> id_method ` set (verificationMethod doc) then verificationMethod doc
      else verificationMethod doc @ [m])"
  by (cases r) (simp_all add: addVerificationMethod_def addReference_def relationshipList_def)


subsection \<open>The successful run\<close>

text \<open>
  \<open>roll\<close> answers with a controller document only along the one path on which every
  step succeeded: the identifier was provided and read, a current key was found, the new
  key was created and the changed identifier was stored.
\<close>

lemma roll_DocumentBody:
  assumes "roll env request st = (Returned response, st', effects)"
    and "body response = DocumentBody doc"
  shows "\<exists>identifierId ident i newKey.
           identifier_request request = Some identifierId \<and> identifierId \<noteq> [] \<and>
           store_read env identifierId (AuthenticatedIdentity (caller request)) st = Inr ident \<and>
           getCurrentKey ident (getQueryParameter (query_use request) Signing) = Some i \<and>
           createKey env
             (getQueryParameter (query_alg request) (algorithm (keyPairs ident ! i)))
             (getQueryParameter (query_use request) Signing)
             (getQueryParameter (map_option Some (query_size request)) (size_keyPair (keyPairs ident ! i)))
             (getQueryParameter (map_option Some (query_curve request)) (curve (keyPairs ident ! i)))
             = Inr newKey \<and>
           store_addOrUpdate env
             (rolled ident i newKey (getQueryParameter (query_use request) Signing)) st = Inr st' \<and>
           response = \<lparr>statusCode = 201, body = DocumentBody (controllerDocument
             (rolled ident i newKey (getQueryParameter (query_use request) Signing)))\<rparr> \<and>
           effects = [StoreRead identifierId (AuthenticatedIdentity (caller request)),
             StoreAddOrUpdate (rolled ident i newKey (getQueryParameter (query_use request) Signing))]"
  using assms
  by (auto simp: roll_def tryRoll_def Let_def catchError_def toErrorResponse_def
      split: option.splits sum.splits if_splits error.splits prod.splits)

lemma roll_success:
  assumes provided: "identifier_request request = Some identifierId" "identifierId \<noteq> []"
    and loaded: "store_read env identifierId (AuthenticatedIdentity (caller request)) st = Inr ident"
    and keyUse: "keyUse = getQueryParameter (query_use request) Signing"
    and current: "getCurrentKey ident keyUse = Some i"
    and new: "createKey env
        (getQueryParameter (query_alg request) (algorithm (keyPairs ident ! i)))
        keyUse
        (getQueryParameter (map_option Some (query_size request)) (size_keyPair (keyPairs ident ! i)))
        (getQueryParameter (map_option Some (query_curve request)) (curve (keyPairs ident ! i)))
        = Inr newKey"
    and persisted: "store_addOrUpdate env (rolled ident i newKey keyUse) st = Inr st'"
  shows "roll env request st =
      (Returned \<lparr>statusCode = 201,
         body = DocumentBody (controllerDocument (rolled ident i newKey keyUse))\<rparr>,
       st',
       [StoreRead identifierId (AuthenticatedIdentity (caller request)),
        StoreAddOrUpdate (rolled ident i newKey keyUse)])"
  using assms by (simp add: roll_def tryRoll_def Let_def)

subsection \<open>The scenario, evaluated\<close>

lemmas scenario_defs =
  exampleCollaborators_def exampleStore_def identifier123_def identifier456_def rollRequest_def
  k1_def k2_def

lemmas roll_defs = roll_def tryRoll_def catchError_def toErrorResponse_def getQueryParameter_def
  getCurrentKey_def isCurrentKey_def createKey_def

lemma caller_rollRequest: "caller rollRequest = ''owner''"
  by (simp add: rollRequest_def)

lemma scenario_provided:
  "identifier_request rollRequest = Some ''123''" "''123'' \<noteq> []"
  by (simp_all add: rollRequest_def)

lemma scenario_loaded:
  "store_read exampleCollaborators ''123'' (AuthenticatedIdentity (caller rollRequest)) exampleStore
     = Inr identifier123"
  by (simp add: exampleCollaborators_def exampleStore_def)

lemma scenario_keyUse: "Signing = getQueryParameter (query_use rollRequest) Signing"
  by (simp add: rollRequest_def getQueryParameter_def)

lemma scenario_current: "getCurrentKey identifier123 Signing = Some 0"
  by (simp add: getCurrentKey_def isCurrentKey_def identifier123_def k1_def)

lemma scenario_new:
  "createKey exampleCollaborators
     (getQueryParameter (query_alg rollRequest) (algorithm (keyPairs identifier123 ! 0)))
     Signing
     (getQueryParameter (map_option Some (query_size rollRequest))
        (size_keyPair (keyPairs identifier123 ! 0)))
     (getQueryParameter (map_option Some (query_curve rollRequest))
        (curve (keyPairs identifier123 ! 0)))
   = Inr (k2 Ecdsa Signing None (Some (EcdsaCurve ''P-256'')))"
  by (simp add: createKey_def getQueryParameter_def scenario_defs)

lemma scenario_persisted:
  "store_addOrUpdate exampleCollaborators ident exampleStore =
     Inr ((id_identifier ident, ident) # exampleStore)"
  by (simp add: exampleCollaborators_def)

lemma roll_scenario:
  "roll exampleCollaborators rollRequest exampleStore =
     (Returned \<lparr>statusCode = 201,
        body = DocumentBody (controllerDocument
          (rolled identifier123 0 (k2 Ecdsa Signing None (Some (EcdsaCurve ''P-256''))) Signing))\<rparr>,
      (''123'', rolled identifier123 0 (k2 Ecdsa Signing None (Some (EcdsaCurve ''P-256''))) Signing) # exampleStore,
      [StoreRead ''123'' (AuthenticatedIdentity ''owner''),
       StoreAddOrUpdate (rolled identifier123 0 (k2 Ecdsa Signing None (Some (EcdsaCurve ''P-256''))) Signing)])"
  by (simp add: roll_defs scenario_defs rolled_def Let_def)

subsection \<open>The further scenarios, evaluated\<close>

lemmas second_defs = secondStore_def identifier321_def identifier789_def k0_def k3_def k4_def



lemma authentication_addVerificationMethod:
  "authentication (addVerificationMethod m [r] doc) =
     (if r = Authentication \<and> id_method m \<notin> set (authentication doc)
      then authentication doc @ [id_method m] else authentication doc)"
  by (cases r) (simp_all add: addVerificationMethod_def addReference_def relationshipList_def)

lemma keyAgreement_addVerificationMethod:
  "keyAgreement (addVerificationMethod m [r] doc) =
     (if r = KeyAgreementRelationship \<and> id_method m \<notin> set (keyAgreement doc)
      then keyAgreement doc @ [id_method m] else keyAgreement doc)"
  by (cases r) (simp_all add: addVerificationMethod_def addReference_def relationshipList_def)

lemma id_method_newVerificationMethod:
  "id_method (newVerificationMethod newKey ident) = id_keyPair newKey"
  by (simp add: newVerificationMethod_def)

lemma second_provided:
  "identifier_request (rollRequest\<lparr>identifier_request := Some ''321''\<rparr>) = Some ''321''"
  "identifier_request (rollRequest\<lparr>identifier_request := Some ''321'', query_use := Some KeyAgreement\<rparr>)
     = Some ''321''"
  "''321'' \<noteq> []"
  by simp_all

lemma second_loaded:
  "store_read exampleCollaborators ''321'' a secondStore = Inr identifier321"
  by (simp add: exampleCollaborators_def secondStore_def)

lemma second_keyUse:
  "Signing = getQueryParameter (query_use (rollRequest\<lparr>identifier_request := Some ''321''\<rparr>)) Signing"
  "KeyAgreement = getQueryParameter
     (query_use (rollRequest\<lparr>identifier_request := Some ''321'', query_use := Some KeyAgreement\<rparr>))
     Signing"
  by (simp_all add: rollRequest_def getQueryParameter_def)

lemma second_current:
  "getCurrentKey identifier321 Signing = Some 1"
  "getCurrentKey identifier321 KeyAgreement = Some 2"
  by (simp_all add: getCurrentKey_def isCurrentKey_def identifier321_def k0_def k1_def k3_def)

lemma second_new:
  "createKey exampleCollaborators
     (getQueryParameter (query_alg (rollRequest\<lparr>identifier_request := Some ''321''\<rparr>))
        (algorithm (keyPairs identifier321 ! 1)))
     Signing
     (getQueryParameter (map_option Some (query_size (rollRequest\<lparr>identifier_request := Some ''321''\<rparr>)))
        (size_keyPair (keyPairs identifier321 ! 1)))
     (getQueryParameter (map_option Some (query_curve (rollRequest\<lparr>identifier_request := Some ''321''\<rparr>)))
        (curve (keyPairs identifier321 ! 1)))
   = Inr (k2 Ecdsa Signing None (Some (EcdsaCurve ''P-256'')))"
  "createKey exampleCollaborators
     (getQueryParameter
        (query_alg (rollRequest\<lparr>identifier_request := Some ''321'', query_use := Some KeyAgreement\<rparr>))
        (algorithm (keyPairs identifier321 ! 2)))
     KeyAgreement
     (getQueryParameter (map_option Some
        (query_size (rollRequest\<lparr>identifier_request := Some ''321'', query_use := Some KeyAgreement\<rparr>)))
        (size_keyPair (keyPairs identifier321 ! 2)))
     (getQueryParameter (map_option Some
        (query_curve (rollRequest\<lparr>identifier_request := Some ''321'', query_use := Some KeyAgreement\<rparr>)))
        (curve (keyPairs identifier321 ! 2)))
   = Inr (k2 Ecdsa KeyAgreement None (Some (EcdsaCurve ''P-256'')))"
  by (simp_all add: createKey_def getQueryParameter_def scenario_defs second_defs)

lemma second_persisted:
  "store_addOrUpdate exampleCollaborators (rolled identifier321 i newKey u) secondStore =
     Inr ((''321'', rolled identifier321 i newKey u) # secondStore)"
  by (simp add: exampleCollaborators_def id_identifier_rolled identifier321_def)




subsection \<open>The endpoint on values and on objects\<close>

text \<open>
  \<open>rollInPlace\<close> and \<open>roll\<close> are the same endpoint: once \<open>read\<close> has returned a
  reference, \<open>rollInPlace\<close> ends as \<open>roll\<close> does, and with the same effects, for the store
  that returns the object at that reference and passes an identifier to \<open>addOrUpdate\<close>
  by writing it there. They differ in what they keep: \<open>roll\<close> the state of the store,
  \<open>rollInPlace\<close> the heap as well.
\<close>

lemma rollInPlace_roll:
  fixes env :: "'st Collaborators"
  assumes loaded: "object_read objs identifierId (AuthenticatedIdentity (caller request)) h st
      = Inr (r, h0)"
    and provided: "identifier_request request = Some identifierId"
    and env': "env' = env\<lparr>
      store_read := (\<lambda>identifierId a s. Inr (h0 r)),
      store_addOrUpdate := (\<lambda>ident' s.
        case object_addOrUpdate objs r (h0(r := ident')) s of
          (Some e, s') \<Rightarrow> Inl e
        | (None, s') \<Rightarrow> Inr s')\<rparr>"
  shows "fst (rollInPlace env objs request h st) = fst (roll env' request st)"
    and "snd (snd (snd (rollInPlace env objs request h st))) = snd (snd (roll env' request st))"
  using loaded provided
  by (auto simp: rollInPlace_def roll_def tryRollInPlace_def tryRoll_def Let_def env'
      createKey_def toErrorResponse_def catchError_def
      split: option.splits sum.splits prod.splits error.splits error_kind.splits)

section \<open>Properties of the rotation\<close>

subsection \<open>One current key per use\<close>




subsection \<open>The response of a successful rotation\<close>

text \<open>
  C2. When every step of a rotation succeeds, \<open>roll\<close> returns status 201 with the
  controller document of the identifier it has stored, whose last key is the new key. The
  document has a verification method with the id of the new key, and the id is in the
  list \<open>authentication\<close> when the requested use is \<open>Signing\<close> and in the list
  \<open>keyAgreement\<close> when it is \<open>KeyAgreement\<close>.
\<close>

theorem roll_returns_created:
  assumes provided: "identifier_request request = Some identifierId" "identifierId \<noteq> []"
    and loaded: "store_read env identifierId (AuthenticatedIdentity (caller request)) st = Inr ident"
    and keyUse: "keyUse = getQueryParameter (query_use request) Signing"
    and current: "getCurrentKey ident keyUse = Some i"
    and new: "createKey env
        (getQueryParameter (query_alg request) (algorithm (keyPairs ident ! i)))
        keyUse
        (getQueryParameter (map_option Some (query_size request)) (size_keyPair (keyPairs ident ! i)))
        (getQueryParameter (map_option Some (query_curve request)) (curve (keyPairs ident ! i)))
        = Inr newKey"
    and ident': "ident' = rolled ident i newKey keyUse"
    and persisted: "store_addOrUpdate env ident' st = Inr st'"
  shows "roll env request st =
      (Returned \<lparr>statusCode = 201, body = DocumentBody (controllerDocument ident')\<rparr>, st',
       [StoreRead identifierId (AuthenticatedIdentity (caller request)),
        StoreAddOrUpdate ident']) \<and>
     last (keyPairs ident') = newKey \<and>
     id_keyPair newKey \<in> id_method ` set (verificationMethod (controllerDocument ident')) \<and>
     (keyUse = Signing \<longrightarrow>
        id_keyPair newKey \<in> set (authentication (controllerDocument ident'))) \<and>
     (keyUse = KeyAgreement \<longrightarrow>
        id_keyPair newKey \<in> set (keyAgreement (controllerDocument ident')))"
proof -
  have run: "roll env request st =
      (Returned \<lparr>statusCode = 201, body = DocumentBody (controllerDocument ident')\<rparr>, st',
       [StoreRead identifierId (AuthenticatedIdentity (caller request)),
        StoreAddOrUpdate ident'])"
    using roll_success [OF provided loaded keyUse current new persisted [unfolded ident']]
    by (simp add: ident')
  have lastKey: "last (keyPairs ident') = newKey"
    by (simp add: ident' keyPairs_rolled)
  have listed: "id_keyPair newKey \<in> id_method ` set (verificationMethod (controllerDocument ident'))"
    unfolding ident' controllerDocument_rolled
    by (simp add: verificationMethod_addVerificationMethod id_method_newVerificationMethod)
  have signing: "id_keyPair newKey \<in> set (authentication (controllerDocument ident'))"
    if "keyUse = Signing"
    unfolding ident' controllerDocument_rolled
    using that
    by (simp add: authentication_addVerificationMethod id_method_newVerificationMethod
        verificationMethodRelationship_def)
  have agreement: "id_keyPair newKey \<in> set (keyAgreement (controllerDocument ident'))"
    if "keyUse = KeyAgreement"
    unfolding ident' controllerDocument_rolled
    using that
    by (simp add: keyAgreement_addVerificationMethod id_method_newVerificationMethod
        verificationMethodRelationship_def)
  from run lastKey listed signing agreement show ?thesis
    by blast
qed

theorem roll_returns_created_witness:
  "roll exampleCollaborators rollRequest exampleStore =
     (Returned \<lparr>statusCode = 201,
        body = DocumentBody (controllerDocument
          (rolled identifier123 0 (k2 Ecdsa Signing None (Some (EcdsaCurve ''P-256''))) Signing))\<rparr>,
      (''123'', rolled identifier123 0 (k2 Ecdsa Signing None (Some (EcdsaCurve ''P-256''))) Signing) # exampleStore,
      [StoreRead ''123'' (AuthenticatedIdentity ''owner''),
       StoreAddOrUpdate (rolled identifier123 0 (k2 Ecdsa Signing None (Some (EcdsaCurve ''P-256''))) Signing)]) \<and>
   ''k2'' \<in> set (authentication (controllerDocument
      (rolled identifier123 0 (k2 Ecdsa Signing None (Some (EcdsaCurve ''P-256''))) Signing))) \<and>
   roll exampleCollaborators
       (rollRequest\<lparr>identifier_request := Some ''321'', query_use := Some KeyAgreement\<rparr>) secondStore =
     (Returned \<lparr>statusCode = 201,
        body = DocumentBody (controllerDocument
          (rolled identifier321 2 (k2 Ecdsa KeyAgreement None (Some (EcdsaCurve ''P-256'')))
             KeyAgreement))\<rparr>,
      (''321'', rolled identifier321 2 (k2 Ecdsa KeyAgreement None (Some (EcdsaCurve ''P-256'')))
         KeyAgreement) # secondStore,
      [StoreRead ''321'' (AuthenticatedIdentity ''owner''),
       StoreAddOrUpdate (rolled identifier321 2 (k2 Ecdsa KeyAgreement None (Some (EcdsaCurve ''P-256'')))
         KeyAgreement)]) \<and>
   ''k2'' \<in> set (keyAgreement (controllerDocument
      (rolled identifier321 2 (k2 Ecdsa KeyAgreement None (Some (EcdsaCurve ''P-256'')))
         KeyAgreement)))"
proof -
  let ?signed = "rolled identifier123 0 (k2 Ecdsa Signing None (Some (EcdsaCurve ''P-256''))) Signing"
  let ?agreed = "rolled identifier321 2 (k2 Ecdsa KeyAgreement None (Some (EcdsaCurve ''P-256'')))
    KeyAgreement"
  have "store_addOrUpdate exampleCollaborators ?signed exampleStore =
      Inr ((''123'', ?signed) # exampleStore)"
    by (simp add: scenario_persisted id_identifier_rolled identifier123_def)
  from roll_returns_created [OF scenario_provided scenario_loaded scenario_keyUse
      scenario_current scenario_new refl this]
  have signing: "roll exampleCollaborators rollRequest exampleStore =
      (Returned \<lparr>statusCode = 201, body = DocumentBody (controllerDocument ?signed)\<rparr>,
       (''123'', ?signed) # exampleStore,
       [StoreRead ''123'' (AuthenticatedIdentity ''owner''), StoreAddOrUpdate ?signed])"
    "''k2'' \<in> set (authentication (controllerDocument ?signed))"
    by (simp_all add: k2_def caller_rollRequest)
  from roll_returns_created [OF second_provided(2,3) second_loaded second_keyUse(2)
      second_current(2) second_new(2) refl second_persisted]
  have agreement: "roll exampleCollaborators
       (rollRequest\<lparr>identifier_request := Some ''321'', query_use := Some KeyAgreement\<rparr>) secondStore =
      (Returned \<lparr>statusCode = 201, body = DocumentBody (controllerDocument ?agreed)\<rparr>,
       (''321'', ?agreed) # secondStore,
       [StoreRead ''321'' (AuthenticatedIdentity ''owner''), StoreAddOrUpdate ?agreed])"
    "''k2'' \<in> set (keyAgreement (controllerDocument ?agreed))"
    by (simp_all add: k2_def caller_rollRequest)
  from signing agreement show ?thesis
    by blast
qed

subsection \<open>The parameters of the new key\<close>

text \<open>
  C3. Let the algorithm, the size and the curve each be the override of the request when
  it supplies one and the attribute of the current key otherwise. When key creation with
  exactly these parameters yields a key and the store accepts the identifier, \<open>roll\<close>
  returns 201 and has stored the identifier with that key appended, and the key has these
  parameters; without any override they are those of the retired key.
\<close>

theorem roll_new_key_parameters:
  assumes provided: "identifier_request request = Some identifierId" "identifierId \<noteq> []"
    and loaded: "store_read env identifierId (AuthenticatedIdentity (caller request)) st = Inr ident"
    and keyUse: "keyUse = getQueryParameter (query_use request) Signing"
    and current: "getCurrentKey ident keyUse = Some i"
    and currentKey: "currentKey = keyPairs ident ! i"
    and alg: "alg = (case query_alg request of Some a \<Rightarrow> a | None \<Rightarrow> algorithm currentKey)"
    and sz: "sz = (case query_size request of Some n \<Rightarrow> Some n | None \<Rightarrow> size_keyPair currentKey)"
    and crv: "crv = (case query_curve request of Some c \<Rightarrow> Some c | None \<Rightarrow> curve currentKey)"
    and new: "createKey env alg keyUse sz crv = Inr newKey"
    and ident': "ident' = rolled ident i newKey keyUse"
    and persisted: "store_addOrUpdate env ident' st = Inr st'"
  shows "roll env request st =
      (Returned \<lparr>statusCode = 201, body = DocumentBody (controllerDocument ident')\<rparr>, st',
       [StoreRead identifierId (AuthenticatedIdentity (caller request)),
        StoreAddOrUpdate ident']) \<and>
     keyPairs ident' =
       (keyPairs ident)[i := currentKey\<lparr>state := Historical, privateKey := None\<rparr>] @ [newKey] \<and>
     algorithm newKey = alg \<and> size_keyPair newKey = sz \<and> curve newKey = crv \<and>
     (query_alg request = None \<and> query_size request = None \<and> query_curve request = None \<longrightarrow>
        algorithm newKey = algorithm (keyPairs ident' ! i) \<and>
        size_keyPair newKey = size_keyPair (keyPairs ident' ! i) \<and>
        curve newKey = curve (keyPairs ident' ! i) \<and>
        state (keyPairs ident' ! i) = Historical)"
proof -
  have resolved:
    "getQueryParameter (query_alg request) (algorithm (keyPairs ident ! i)) = alg"
    "getQueryParameter (map_option Some (query_size request)) (size_keyPair (keyPairs ident ! i)) = sz"
    "getQueryParameter (map_option Some (query_curve request)) (curve (keyPairs ident ! i)) = crv"
    by (simp_all add: getQueryParameter_def alg sz crv currentKey split: option.splits)
  have run: "roll env request st =
      (Returned \<lparr>statusCode = 201, body = DocumentBody (controllerDocument ident')\<rparr>, st',
       [StoreRead identifierId (AuthenticatedIdentity (caller request)),
        StoreAddOrUpdate ident'])"
    using roll_success [OF provided loaded keyUse current new [folded resolved]
        persisted [unfolded ident']]
    by (simp add: ident')
  from current have i: "i < length (keyPairs ident)"
    by (simp add: getCurrentKey_def findIndex_Some)
  have keys: "keyPairs ident' =
       (keyPairs ident)[i := currentKey\<lparr>state := Historical, privateKey := None\<rparr>] @ [newKey]"
    by (simp add: ident' keyPairs_rolled retire_def currentKey)
  have attributes: "algorithm newKey = alg" "size_keyPair newKey = sz" "curve newKey = crv"
    using createKey_Inr(1-3) [OF new] by simp_all
  have retired: "keyPairs ident' ! i = currentKey\<lparr>state := Historical, privateKey := None\<rparr>"
    using i by (simp add: keys nth_append)
  have inherited: "algorithm newKey = algorithm (keyPairs ident' ! i) \<and>
        size_keyPair newKey = size_keyPair (keyPairs ident' ! i) \<and>
        curve newKey = curve (keyPairs ident' ! i) \<and>
        state (keyPairs ident' ! i) = Historical"
    if "query_alg request = None \<and> query_size request = None \<and> query_curve request = None"
    using that by (simp add: attributes retired alg sz crv)
  from run keys attributes inherited show ?thesis
    by blast
qed

theorem roll_new_key_parameters_witness:
  "roll exampleCollaborators (rollRequest\<lparr>query_curve := Some (EcdsaCurve ''P-384'')\<rparr>) exampleStore =
     (Returned \<lparr>statusCode = 201,
        body = DocumentBody (controllerDocument
          (rolled identifier123 0 (k2 Ecdsa Signing None (Some (EcdsaCurve ''P-384''))) Signing))\<rparr>,
      (''123'', rolled identifier123 0 (k2 Ecdsa Signing None (Some (EcdsaCurve ''P-384''))) Signing)
        # exampleStore,
      [StoreRead ''123'' (AuthenticatedIdentity ''owner''),
       StoreAddOrUpdate
         (rolled identifier123 0 (k2 Ecdsa Signing None (Some (EcdsaCurve ''P-384''))) Signing)]) \<and>
   keyPairs (rolled identifier123 0 (k2 Ecdsa Signing None (Some (EcdsaCurve ''P-384''))) Signing) =
     [k1\<lparr>state := Historical, privateKey := None\<rparr>,
      k2 Ecdsa Signing None (Some (EcdsaCurve ''P-384''))] \<and>
   algorithm (k2 Ecdsa Signing None (Some (EcdsaCurve ''P-384''))) = algorithm k1 \<and>
   size_keyPair (k2 Ecdsa Signing None (Some (EcdsaCurve ''P-384''))) = size_keyPair k1 \<and>
   curve (k2 Ecdsa Signing None (Some (EcdsaCurve ''P-384''))) = Some (EcdsaCurve ''P-384'') \<and>
   curve k1 = Some (EcdsaCurve ''P-256'') \<and>
   roll exampleCollaborators rollRequest exampleStore =
     (Returned \<lparr>statusCode = 201,
        body = DocumentBody (controllerDocument
          (rolled identifier123 0 (k2 Ecdsa Signing None (Some (EcdsaCurve ''P-256''))) Signing))\<rparr>,
      (''123'', rolled identifier123 0 (k2 Ecdsa Signing None (Some (EcdsaCurve ''P-256''))) Signing)
        # exampleStore,
      [StoreRead ''123'' (AuthenticatedIdentity ''owner''),
       StoreAddOrUpdate
         (rolled identifier123 0 (k2 Ecdsa Signing None (Some (EcdsaCurve ''P-256''))) Signing)]) \<and>
   keyPairs (rolled identifier123 0 (k2 Ecdsa Signing None (Some (EcdsaCurve ''P-256''))) Signing) =
     [k1\<lparr>state := Historical, privateKey := None\<rparr>,
      k2 Ecdsa Signing None (Some (EcdsaCurve ''P-256''))] \<and>
   algorithm (k2 Ecdsa Signing None (Some (EcdsaCurve ''P-256''))) = algorithm k1 \<and>
   size_keyPair (k2 Ecdsa Signing None (Some (EcdsaCurve ''P-256''))) = size_keyPair k1 \<and>
   curve (k2 Ecdsa Signing None (Some (EcdsaCurve ''P-256''))) = curve k1"
proof -
  let ?request = "rollRequest\<lparr>query_curve := Some (EcdsaCurve ''P-384'')\<rparr>"
  let ?other = "k2 Ecdsa Signing None (Some (EcdsaCurve ''P-384''))"
  let ?same = "k2 Ecdsa Signing None (Some (EcdsaCurve ''P-256''))"
  have k1: "k1 = keyPairs identifier123 ! 0"
    by (simp add: identifier123_def)
  have attributes: "algorithm k1 = Ecdsa" "size_keyPair k1 = None"
    "curve k1 = Some (EcdsaCurve ''P-256'')"
    by (simp_all add: k1_def)
  have overridden:
    "identifier_request ?request = Some ''123''"
    "store_read exampleCollaborators ''123'' (AuthenticatedIdentity (caller ?request)) exampleStore
       = Inr identifier123"
    "Signing = getQueryParameter (query_use ?request) Signing"
    "Ecdsa = (case query_alg ?request of Some a \<Rightarrow> a | None \<Rightarrow> algorithm k1)"
    "None = (case query_size ?request of Some n \<Rightarrow> Some n | None \<Rightarrow> size_keyPair k1)"
    "Some (EcdsaCurve ''P-384'') =
       (case query_curve ?request of Some c \<Rightarrow> Some c | None \<Rightarrow> curve k1)"
    "createKey exampleCollaborators Ecdsa Signing None (Some (EcdsaCurve ''P-384'')) = Inr ?other"
    by (simp_all add: scenario_defs getQueryParameter_def createKey_def)
  have inherited:
    "Ecdsa = (case query_alg rollRequest of Some a \<Rightarrow> a | None \<Rightarrow> algorithm k1)"
    "None = (case query_size rollRequest of Some n \<Rightarrow> Some n | None \<Rightarrow> size_keyPair k1)"
    "Some (EcdsaCurve ''P-256'') =
       (case query_curve rollRequest of Some c \<Rightarrow> Some c | None \<Rightarrow> curve k1)"
    "createKey exampleCollaborators Ecdsa Signing None (Some (EcdsaCurve ''P-256'')) = Inr ?same"
    by (simp_all add: scenario_defs getQueryParameter_def createKey_def)
  have persisted: "store_addOrUpdate exampleCollaborators (rolled identifier123 0 newKey Signing)
      exampleStore = Inr ((''123'', rolled identifier123 0 newKey Signing) # exampleStore)" for newKey
    by (simp add: scenario_persisted id_identifier_rolled identifier123_def)
  note first = roll_new_key_parameters [OF overridden(1) scenario_provided(2) overridden(2,3)
      scenario_current k1 overridden(4-7) refl persisted]
  note second = roll_new_key_parameters [OF scenario_provided scenario_loaded scenario_keyUse
      scenario_current k1 inherited refl persisted]
  have keys: "(keyPairs identifier123)[0 := k1\<lparr>state := Historical, privateKey := None\<rparr>] @ [k] =
      [k1\<lparr>state := Historical, privateKey := None\<rparr>, k]" for k
    by (simp add: identifier123_def)
  from first have run1: "roll exampleCollaborators ?request exampleStore =
      (Returned \<lparr>statusCode = 201,
         body = DocumentBody (controllerDocument (rolled identifier123 0 ?other Signing))\<rparr>,
       (''123'', rolled identifier123 0 ?other Signing) # exampleStore,
       [StoreRead ''123'' (AuthenticatedIdentity ''owner''),
        StoreAddOrUpdate (rolled identifier123 0 ?other Signing)])"
    and keys1: "keyPairs (rolled identifier123 0 ?other Signing) =
      [k1\<lparr>state := Historical, privateKey := None\<rparr>, ?other]"
    and new1: "algorithm ?other = Ecdsa" "size_keyPair ?other = None"
      "curve ?other = Some (EcdsaCurve ''P-384'')"
    by (simp_all add: caller_rollRequest keys)
  from second have run2: "roll exampleCollaborators rollRequest exampleStore =
      (Returned \<lparr>statusCode = 201,
         body = DocumentBody (controllerDocument (rolled identifier123 0 ?same Signing))\<rparr>,
       (''123'', rolled identifier123 0 ?same Signing) # exampleStore,
       [StoreRead ''123'' (AuthenticatedIdentity ''owner''),
        StoreAddOrUpdate (rolled identifier123 0 ?same Signing)])"
    and keys2: "keyPairs (rolled identifier123 0 ?same Signing) =
      [k1\<lparr>state := Historical, privateKey := None\<rparr>, ?same]"
    and new2: "algorithm ?same = Ecdsa" "size_keyPair ?same = None"
      "curve ?same = Some (EcdsaCurve ''P-256'')"
    by (simp_all add: caller_rollRequest keys)
  show ?thesis
    unfolding attributes new1 new2
    using run1 keys1 run2 keys2 by simp
qed

subsection \<open>The failing runs\<close>

text \<open>
  C4. When the identifier that was read has no current key for the requested use, \<open>roll\<close>
  answers with the error response of \<open>KeyNotConfigured\<close>, reports the error on the console
  and leaves the store as it was: after the read it calls the store no more.
\<close>

theorem roll_key_not_configured:
  assumes provided: "identifier_request request = Some identifierId" "identifierId \<noteq> []"
    and loaded: "store_read env identifierId (AuthenticatedIdentity (caller request)) st = Inr ident"
    and keyUse: "keyUse = getQueryParameter (query_use request) Signing"
    and absent: "\<forall>k \<in> set (keyPairs ident). \<not> (use k = keyUse \<and> state k = Current)"
  shows "roll env request st =
      (Returned \<lparr>statusCode = otherStatus env (KeyNotConfigured identifierId keyUse),
         body = ErrorBody (KeyNotConfigured identifierId keyUse)\<rparr>,
       st,
       [StoreRead identifierId (AuthenticatedIdentity (caller request)),
        ConsoleError (AuthenticatedRequestError (KeyNotConfigured identifierId keyUse)
          (AuthenticatedIdentity (caller request)))])"
proof -
  from absent have "getCurrentKey ident keyUse = None"
    by (simp add: getCurrentKey_def findIndex_None isCurrentKey_def)
  with provided loaded keyUse show ?thesis
    by (simp add: roll_def tryRoll_def toErrorResponse_def Let_def)
qed

theorem roll_key_not_configured_witness:
  "roll exampleCollaborators (rollRequest\<lparr>query_use := Some KeyAgreement\<rparr>) exampleStore =
     (Returned \<lparr>statusCode = 400, body = ErrorBody (KeyNotConfigured ''123'' KeyAgreement)\<rparr>,
      exampleStore,
      [StoreRead ''123'' (AuthenticatedIdentity ''owner''),
       ConsoleError (AuthenticatedRequestError (KeyNotConfigured ''123'' KeyAgreement)
         (AuthenticatedIdentity ''owner''))])"
proof -
  let ?request = "rollRequest\<lparr>query_use := Some KeyAgreement\<rparr>"
  have "identifier_request ?request = Some ''123''" "''123'' \<noteq> []"
    "store_read exampleCollaborators ''123'' (AuthenticatedIdentity (caller ?request)) exampleStore
       = Inr identifier123"
    "KeyAgreement = getQueryParameter (query_use ?request) Signing"
    "\<forall>k \<in> set (keyPairs identifier123). \<not> (use k = KeyAgreement \<and> state k = Current)"
    by (simp_all add: scenario_defs getQueryParameter_def)
  from roll_key_not_configured [OF this] show ?thesis
    by (simp add: exampleCollaborators_def rollRequest_def)
qed

text \<open>
  C6. When \<open>createKey\<close> fails, with \<open>InvalidKeyParameters\<close> or any other error, that same
  error is what \<open>roll\<close> ends with, as its error response when it derives from
  \<open>AuthenticatedRequestError\<close> and thrown again otherwise. The store is as it was, and the
  only call of the store is the read: no changed identifier exists at that point.
\<close>

theorem roll_createKey_fails:
  assumes provided: "identifier_request request = Some identifierId" "identifierId \<noteq> []"
    and loaded: "store_read env identifierId (AuthenticatedIdentity (caller request)) st = Inr ident"
    and keyUse: "keyUse = getQueryParameter (query_use request) Signing"
    and current: "getCurrentKey ident keyUse = Some i"
    and rejected: "createKey env
        (getQueryParameter (query_alg request) (algorithm (keyPairs ident ! i)))
        keyUse
        (getQueryParameter (map_option Some (query_size request)) (size_keyPair (keyPairs ident ! i)))
        (getQueryParameter (map_option Some (query_curve request)) (curve (keyPairs ident ! i)))
        = Inl e"
  shows "roll env request st =
      ((case e of
          AuthenticatedRequestError k a \<Rightarrow>
            Returned \<lparr>statusCode = (case k of IdentifierNotProvided \<Rightarrow> 400 | _ \<Rightarrow> otherStatus env k),
                      body = ErrorBody k\<rparr>
        | OtherError k \<Rightarrow> Thrown (OtherError k)),
       st,
       [StoreRead identifierId (AuthenticatedIdentity (caller request))])"
  using assms
  by (simp add: roll_def tryRoll_def catchError_def toErrorResponse_def split: error.splits)

theorem roll_createKey_fails_witness:
  "roll exampleCollaborators (rollRequest\<lparr>query_alg := Some Rsa\<rparr>) exampleStore =
     (Thrown (OtherError InvalidKeyParameters), exampleStore,
      [StoreRead ''123'' (AuthenticatedIdentity ''owner'')])"
proof -
  let ?request = "rollRequest\<lparr>query_alg := Some Rsa\<rparr>"
  have "identifier_request ?request = Some ''123''" "''123'' \<noteq> []"
    "store_read exampleCollaborators ''123'' (AuthenticatedIdentity (caller ?request)) exampleStore
       = Inr identifier123"
    "Signing = getQueryParameter (query_use ?request) Signing"
    "getCurrentKey identifier123 Signing = Some 0"
    "createKey exampleCollaborators
        (getQueryParameter (query_alg ?request) (algorithm (keyPairs identifier123 ! 0)))
        Signing
        (getQueryParameter (map_option Some (query_size ?request))
           (size_keyPair (keyPairs identifier123 ! 0)))
        (getQueryParameter (map_option Some (query_curve ?request))
           (curve (keyPairs identifier123 ! 0)))
        = Inl (OtherError InvalidKeyParameters)"
    by (simp_all add: scenario_defs roll_defs)
  from roll_createKey_fails [OF this] show ?thesis
    by (simp add: rollRequest_def)
qed

text \<open>
  C8. When the request has no identifier (none, or the empty string), \<open>roll\<close> returns
  status 400 with a body describing \<open>IdentifierNotProvided\<close>. Its only effect is the
  console output, and the result does not depend on what \<open>read\<close> and \<open>addOrUpdate\<close> of the
  store are: the store is not accessed.
\<close>

theorem roll_identifier_not_provided:
  assumes "identifier_request request = None \<or> identifier_request request = Some []"
  shows "roll env request st =
      (Returned \<lparr>statusCode = 400, body = ErrorBody IdentifierNotProvided\<rparr>, st,
       [ConsoleLog (AuthenticatedRequestError IdentifierNotProvided
          (AuthenticatedIdentity (caller request)))]) \<and>
     roll (env\<lparr>store_read := anyRead, store_addOrUpdate := anyAddOrUpdate\<rparr>) request st =
       roll env request st"
  using assms by (auto simp: roll_def toErrorResponse_def)

theorem roll_identifier_not_provided_witness:
  "roll exampleCollaborators (rollRequest\<lparr>identifier_request := None\<rparr>) exampleStore =
     (Returned \<lparr>statusCode = 400, body = ErrorBody IdentifierNotProvided\<rparr>, exampleStore,
      [ConsoleLog (AuthenticatedRequestError IdentifierNotProvided (AuthenticatedIdentity ''owner''))]) \<and>
   roll conflictingCollaborators (rollRequest\<lparr>identifier_request := Some []\<rparr>) exampleStore =
     (Returned \<lparr>statusCode = 400, body = ErrorBody IdentifierNotProvided\<rparr>, exampleStore,
      [ConsoleLog (AuthenticatedRequestError IdentifierNotProvided (AuthenticatedIdentity ''owner''))])"
  using roll_identifier_not_provided [of "rollRequest\<lparr>identifier_request := None\<rparr>"
      exampleCollaborators exampleStore]
    roll_identifier_not_provided [of "rollRequest\<lparr>identifier_request := Some []\<rparr>"
      conflictingCollaborators exampleStore]
  by (simp add: rollRequest_def)

subsection \<open>A failing update of the store\<close>




subsection \<open>The relationship of a use\<close>




subsection \<open>What a rotation changes\<close>




subsection \<open>No private key in the controller document\<close>

text \<open>
  C10. In a successful rotation the new key has a private key, but the verification method
  added for it holds the JWK of its public part only: every verification method of the
  document that is returned and stored was in the document that was read, or is the
  public JWK of the new key. So a document free of private key material stays free of it.
\<close>

theorem roll_document_public_only:
  assumes run: "roll env request st = (Returned response, st', effects)"
    and created: "body response = DocumentBody doc"
    and provided: "identifier_request request = Some identifierId"
    and loaded: "store_read env identifierId (AuthenticatedIdentity (caller request)) st = Inr ident"
  shows "\<exists>ident'.
      effects = [StoreRead identifierId (AuthenticatedIdentity (caller request)),
                 StoreAddOrUpdate ident'] \<and>
      controllerDocument ident' = doc \<and>
      keyPairs ident' \<noteq> [] \<and>
      privateKey (last (keyPairs ident')) \<noteq> None \<and>
      (\<forall>m \<in> set (verificationMethod doc).
         m \<in> set (verificationMethod (controllerDocument ident)) \<or>
         publicKeyJwk m = asJwk (last (keyPairs ident')) False \<and>
         jwk_private (publicKeyJwk m) = None) \<and>
      ((\<forall>m \<in> set (verificationMethod (controllerDocument ident)). jwk_private (publicKeyJwk m) = None)
        \<longrightarrow> (\<forall>m \<in> set (verificationMethod doc). jwk_private (publicKeyJwk m) = None))"
proof -
  from roll_DocumentBody [OF run created] provided loaded
  obtain i newKey keyUse alg sz crv where
    new: "createKey env alg keyUse sz crv = Inr newKey" and
    response: "response = \<lparr>statusCode = 201,
      body = DocumentBody (controllerDocument (rolled ident i newKey keyUse))\<rparr>" and
    eff: "effects = [StoreRead identifierId (AuthenticatedIdentity (caller request)),
             StoreAddOrUpdate (rolled ident i newKey keyUse)]"
    by auto
  let ?ident' = "rolled ident i newKey keyUse"
  let ?m = "newVerificationMethod newKey ident"
  from response created have doc: "controllerDocument ?ident' = doc"
    by simp
  have lastKey: "keyPairs ?ident' \<noteq> []" "last (keyPairs ?ident') = newKey"
    by (simp_all add: keyPairs_rolled)
  have hasPrivate: "privateKey newKey \<noteq> None"
    using new by (rule createKey_Inr)
  have jwk: "publicKeyJwk ?m = asJwk newKey False" "jwk_private (publicKeyJwk ?m) = None"
    by (simp_all add: newVerificationMethod_def asJwk_def)
  have methods: "m \<in> set (verificationMethod (controllerDocument ident)) \<or> m = ?m"
    if "m \<in> set (verificationMethod doc)" for m
    using that unfolding doc [symmetric] controllerDocument_rolled
    by (auto simp: verificationMethod_addVerificationMethod split: if_splits)
  have each: "\<forall>m \<in> set (verificationMethod doc).
         m \<in> set (verificationMethod (controllerDocument ident)) \<or>
         publicKeyJwk m = asJwk (last (keyPairs ?ident')) False \<and>
         jwk_private (publicKeyJwk m) = None"
  proof
    fix m
    assume "m \<in> set (verificationMethod doc)"
    then have "m \<in> set (verificationMethod (controllerDocument ident)) \<or> m = ?m"
      by (rule methods)
    with jwk lastKey(2)
    show "m \<in> set (verificationMethod (controllerDocument ident)) \<or>
         publicKeyJwk m = asJwk (last (keyPairs ?ident')) False \<and>
         jwk_private (publicKeyJwk m) = None"
      by auto
  qed
  then have all: "(\<forall>m \<in> set (verificationMethod (controllerDocument ident)). jwk_private (publicKeyJwk m) = None)
        \<longrightarrow> (\<forall>m \<in> set (verificationMethod doc). jwk_private (publicKeyJwk m) = None)"
    by blast
  from eff doc lastKey hasPrivate each all show ?thesis
    by (intro exI [of _ ?ident']) simp
qed

theorem roll_document_public_only_witness:
  "privateKey (last (keyPairs
     (rolled identifier123 0 (k2 Ecdsa Signing None (Some (EcdsaCurve ''P-256''))) Signing))) = Some ''d2'' \<and>
   map (jwk_private \<circ> publicKeyJwk) (verificationMethod (controllerDocument identifier123)) = [None] \<and>
   map (jwk_private \<circ> publicKeyJwk) (verificationMethod (controllerDocument
     (rolled identifier123 0 (k2 Ecdsa Signing None (Some (EcdsaCurve ''P-256''))) Signing))) =
     [None, None]"
proof -
  let ?after = "rolled identifier123 0 (k2 Ecdsa Signing None (Some (EcdsaCurve ''P-256''))) Signing"
  let ?doc = "controllerDocument ?after"
  have before: "\<forall>m \<in> set (verificationMethod (controllerDocument identifier123)).
      jwk_private (publicKeyJwk m) = None"
    by (simp add: identifier123_def asJwk_def)
  have "\<exists>ident'.
      [StoreRead ''123'' (AuthenticatedIdentity ''owner''), StoreAddOrUpdate ?after] =
        [StoreRead ''123'' (AuthenticatedIdentity (caller rollRequest)), StoreAddOrUpdate ident'] \<and>
      controllerDocument ident' = ?doc \<and>
      keyPairs ident' \<noteq> [] \<and>
      privateKey (last (keyPairs ident')) \<noteq> None \<and>
      (\<forall>m \<in> set (verificationMethod ?doc).
         m \<in> set (verificationMethod (controllerDocument identifier123)) \<or>
         publicKeyJwk m = asJwk (last (keyPairs ident')) False \<and>
         jwk_private (publicKeyJwk m) = None) \<and>
      ((\<forall>m \<in> set (verificationMethod (controllerDocument identifier123)). jwk_private (publicKeyJwk m) = None)
        \<longrightarrow> (\<forall>m \<in> set (verificationMethod ?doc). jwk_private (publicKeyJwk m) = None))"
    by (rule roll_document_public_only [OF roll_scenario _ scenario_provided(1) scenario_loaded])
      simp
  with before have after: "\<forall>m \<in> set (verificationMethod ?doc). jwk_private (publicKeyJwk m) = None"
    by blast
  have "length (verificationMethod ?doc) = 2"
    by (simp add: controllerDocument_rolled verificationMethod_addVerificationMethod
        newVerificationMethod_def k2_def identifier123_def)
  then obtain m1 m2 where "verificationMethod ?doc = [m1, m2]"
    by (auto simp: length_Suc_conv numeral_2_eq_2)
  with after have "map (jwk_private \<circ> publicKeyJwk) (verificationMethod ?doc) = [None, None]"
    by simp
  moreover have "privateKey (last (keyPairs ?after)) = Some ''d2''"
    by (simp add: keyPairs_rolled k2_def)
  moreover have "map (jwk_private \<circ> publicKeyJwk) (verificationMethod (controllerDocument identifier123)) = [None]"
    by (simp add: identifier123_def asJwk_def)
  ultimately show ?thesis by simp
qed

end
